theory Spec2Isabelle
  imports Main
begin

section \<open>JavaScript values and the operators the comment service uses\<close>

text \<open>
  The service works on values typed \<^verbatim>\<open>any\<close>: the JSON data of the upstream API and
  the argument object of a tool call. They are modelled by one datatype of JSON-like
  values. An object is an association list (the first binding of a key is the one a read
  sees). A number is an integer or NaN: the code only tests numbers for truthiness and
  passes them on. Functions, getters and proxies are not values of the model.
\<close>

datatype jsval =
    JUndefined
  | JNull
  | JBool bool
  | JNum int
  | JNaN
  | JStr string
  | JArr "jsval list"
  | JObj "(string \<times> jsval) list"

text \<open>
  A thrown (or rejected) value. \<open>JsError m\<close> and \<open>JsTypeError m\<close> are instances of
  \<^verbatim>\<open>Error\<close> with message \<open>m\<close>; \<open>JsThrown s\<close> is any other value, given by the
  string that \<^verbatim>\<open>String(error)\<close> yields for it.
\<close>

datatype exn = JsError string | JsTypeError string | JsThrown string

definition and_then :: "exn + 'a \<Rightarrow> ('a \<Rightarrow> exn + 'b) \<Rightarrow> exn + 'b" where
  "and_then r f = (case r of Inl e \<Rightarrow> Inl e | Inr v \<Rightarrow> f v)"

fun truthy :: "jsval \<Rightarrow> bool" where
  "truthy JUndefined = False"
| "truthy JNull = False"
| "truthy (JBool b) = b"
| "truthy (JNum n) = (n \<noteq> 0)"
| "truthy JNaN = False"
| "truthy (JStr s) = (s \<noteq> [])"
| "truthy (JArr xs) = True"
| "truthy (JObj fs) = True"

text \<open>\<^verbatim>\<open>a || b\<close> and \<^verbatim>\<open>a && b\<close> on values already evaluated.\<close>

definition js_or :: "jsval \<Rightarrow> jsval \<Rightarrow> jsval" where
  "js_or a b = (if truthy a then a else b)"

definition js_and :: "jsval \<Rightarrow> jsval \<Rightarrow> jsval" where
  "js_and a b = (if truthy a then b else a)"

definition js_not :: "jsval \<Rightarrow> jsval" where
  "js_not a = JBool (\<not> truthy a)"

definition nullish :: "jsval \<Rightarrow> bool" where
  "nullish v = (v = JUndefined \<or> v = JNull)"

text \<open>
  Reading property \<open>k\<close> of a value that is neither \<^verbatim>\<open>undefined\<close> nor \<^verbatim>\<open>null\<close>.
  The names the program reads (\<^verbatim>\<open>id\<close>, \<^verbatim>\<open>snippet\<close>, \<^verbatim>\<open>topLevelComment\<close>,
  \<^verbatim>\<open>textDisplay\<close>, \<^verbatim>\<open>parentId\<close>, \<^verbatim>\<open>text\<close>, \<^verbatim>\<open>data\<close>, \<^verbatim>\<open>items\<close>,
  \<^verbatim>\<open>pageInfo\<close>, \<^verbatim>\<open>videoId\<close>, \<^verbatim>\<open>maxResults\<close>, \<^verbatim>\<open>textFormat\<close>) are on no
  prototype, so on a primitive or an array they read \<^verbatim>\<open>undefined\<close>.
\<close>

fun own_prop :: "jsval \<Rightarrow> string \<Rightarrow> jsval" where
  "own_prop (JObj fs) k = (case map_of fs k of Some v \<Rightarrow> v | None \<Rightarrow> JUndefined)"
| "own_prop v k = JUndefined"

definition cannot_read :: "string \<Rightarrow> string \<Rightarrow> exn" where
  "cannot_read what k =
     JsTypeError (''Cannot read properties of '' @ what @ '' (reading '' @ [CHR 0x27] @ k @ [CHR 0x27] @ '')'')"

text \<open>\<^verbatim>\<open>v.k\<close>: a TypeError on \<^verbatim>\<open>undefined\<close> and \<^verbatim>\<open>null\<close>.\<close>

fun get_prop :: "jsval \<Rightarrow> string \<Rightarrow> exn + jsval" where
  "get_prop JUndefined k = Inl (cannot_read ''undefined'' k)"
| "get_prop JNull k = Inl (cannot_read ''null'' k)"
| "get_prop v k = Inr (own_prop v k)"

text \<open>\<^verbatim>\<open>v?.k\<close>: \<^verbatim>\<open>undefined\<close> on \<^verbatim>\<open>undefined\<close> and \<^verbatim>\<open>null\<close>, never an error.\<close>

fun opt_get :: "jsval \<Rightarrow> string \<Rightarrow> jsval" where
  "opt_get JUndefined k = JUndefined"
| "opt_get JNull k = JUndefined"
| "opt_get v k = own_prop v k"

text \<open>
  \<^verbatim>\<open>Array.prototype.map\<close> with a callback that may throw: the first exception ends
  the loop and is the result.
\<close>

fun js_map :: "('a \<Rightarrow> exn + 'b) \<Rightarrow> 'a list \<Rightarrow> exn + 'b list" where
  "js_map f [] = Inr []"
| "js_map f (x # xs) =
     (case f x of
        Inl e \<Rightarrow> Inl e
      | Inr y \<Rightarrow> (case js_map f xs of Inl e \<Rightarrow> Inl e | Inr ys \<Rightarrow> Inr (y # ys)))"

text \<open>
  \<^verbatim>\<open>v.map(f)\<close> on a value of type \<^verbatim>\<open>any\<close>, the parameter being named \<open>name\<close>: only
  an array has a callable \<^verbatim>\<open>map\<close>.
\<close>

fun call_map :: "string \<Rightarrow> jsval \<Rightarrow> (jsval \<Rightarrow> exn + jsval) \<Rightarrow> exn + jsval list" where
  "call_map name (JArr xs) f = js_map f xs"
| "call_map name JUndefined f = Inl (cannot_read ''undefined'' ''map'')"
| "call_map name JNull f = Inl (cannot_read ''null'' ''map'')"
| "call_map name v f = Inl (JsTypeError (name @ ''.map is not a function''))"

section \<open>Projection functions of \<^verbatim>\<open>CommentService\<close>\<close>

text \<open>
  The callback of \<^verbatim>\<open>extractEssentialComments\<close>:
  \<^verbatim>\<open>
  const topLevelSnippet = comment.snippet?.topLevelComment?.snippet;
  const parentId = comment.id;
  const text = topLevelSnippet?.textDisplay || '';
  return { parentId, text };
  \<close>
\<close>

definition extractEssentialComment :: "jsval \<Rightarrow> exn + jsval" where
  "extractEssentialComment comment =
     and_then (get_prop comment ''snippet'') (\<lambda>snippet.
       let topLevelSnippet = opt_get (opt_get snippet ''topLevelComment'') ''snippet'' in
       and_then (get_prop comment ''id'') (\<lambda>parentId.
         let text = js_or (opt_get topLevelSnippet ''textDisplay'') (JStr '''') in
         Inr (JObj [(''parentId'', parentId), (''text'', text)])))"

definition extractEssentialComments :: "jsval \<Rightarrow> exn + jsval list" where
  "extractEssentialComments comments = call_map ''comments'' comments extractEssentialComment"

text \<open>The callback of \<^verbatim>\<open>extractEssentialReplies\<close>: \<^verbatim>\<open>reply.snippet?.textDisplay || ''\<close>.\<close>

definition extractEssentialReply :: "jsval \<Rightarrow> exn + jsval" where
  "extractEssentialReply reply =
     and_then (get_prop reply ''snippet'') (\<lambda>snippet.
       Inr (js_or (opt_get snippet ''textDisplay'') (JStr '''')))"

definition extractEssentialReplies :: "jsval \<Rightarrow> exn + jsval list" where
  "extractEssentialReplies replies = call_map ''replies'' replies extractEssentialReply"

section \<open>The projection of the test script\<close>

text \<open>
  \<^verbatim>\<open>tests/comments.test.ts\<close> has its own \<^verbatim>\<open>extractEssentialComments\<close>, which first
  tests \<^verbatim>\<open>comment.parentId && comment.text && !comment.snippet\<close> and returns the
  comment itself when the test holds. Once \<^verbatim>\<open>comment.parentId\<close> has been read without
  a TypeError the comment is neither \<^verbatim>\<open>undefined\<close> nor \<^verbatim>\<open>null\<close>, so the later
  reads cannot throw.
\<close>

definition test_extractEssentialComment :: "jsval \<Rightarrow> exn + jsval" where
  "test_extractEssentialComment comment =
     and_then (get_prop comment ''parentId'') (\<lambda>parentId.
       if truthy (js_and (js_and parentId (own_prop comment ''text''))
                         (js_not (own_prop comment ''snippet'')))
       then Inr comment
       else extractEssentialComment comment)"

definition test_extractEssentialComments :: "jsval \<Rightarrow> exn + jsval list" where
  "test_extractEssentialComments comments =
     call_map ''comments'' comments test_extractEssentialComment"

section \<open>The service: lazy client, upstream call, error wrapping\<close>

text \<open>The handle \<^verbatim>\<open>google.youtube({version, auth})\<close> returns, kept as its options.\<close>

record client =
  version :: string
  auth :: string

record CommentService =
  youtube :: "client option"
  initialized :: bool

text \<open>\<^verbatim>\<open>constructor() {}\<close>: no client, \<^verbatim>\<open>initialized = false\<close>.\<close>

definition constructor :: CommentService where
  "constructor = \<lparr>youtube = None, initialized = False\<rparr>"

type_synonym env = "string \<rightharpoonup> string"

definition initialize :: "env \<Rightarrow> CommentService \<Rightarrow> exn + CommentService" where
  "initialize env this =
     (if initialized this then Inr this
      else (case env ''YOUTUBE_API_KEY'' of
              None \<Rightarrow> Inl (JsError ''YOUTUBE_API_KEY environment variable is not set.'')
            | Some apiKey \<Rightarrow>
                if apiKey = [] then Inl (JsError ''YOUTUBE_API_KEY environment variable is not set.'')
                else Inr (this\<lparr>youtube := Some \<lparr>version = ''v3'', auth = apiKey\<rparr>,
                               initialized := True\<rparr>)))"

datatype endpoint = CommentThreads_list | Comments_list

type_synonym request = "endpoint \<times> jsval"

text \<open>
  The upstream API is a parameter of the model: the outcome of awaiting one request on a
  client, either a rejection or the response value.
\<close>

type_synonym upstream = "client \<Rightarrow> request \<Rightarrow> exn + jsval"

text \<open>
  What one call of an operation leaves behind: the settled promise, the service object
  after the call, and the upstream requests issued, in order.
\<close>

record outcome =
  result :: "exn + jsval"
  service :: CommentService
  requests :: "request list"

text \<open>\<^verbatim>\<open>error instanceof Error ? error.message : String(error)\<close>\<close>

fun message_of :: "exn \<Rightarrow> string" where
  "message_of (JsError m) = m"
| "message_of (JsTypeError m) = m"
| "message_of (JsThrown s) = s"

text \<open>The \<^verbatim>\<open>catch\<close> block: \<^verbatim>\<open>throw new Error(`<prefix>${...}`)\<close>.\<close>

definition rethrow :: "string \<Rightarrow> exn + 'a \<Rightarrow> exn + 'a" where
  "rethrow prefix r = (case r of Inl error \<Rightarrow> Inl (JsError (prefix @ message_of error)) | Inr v \<Rightarrow> Inr v)"

text \<open>A destructuring default \<^verbatim>\<open>{ p = d }\<close> applies when the property is \<^verbatim>\<open>undefined\<close>.\<close>

definition with_default :: "jsval \<Rightarrow> jsval \<Rightarrow> jsval" where
  "with_default v d = (if v = JUndefined then d else v)"

text \<open>
  What follows \<^verbatim>\<open>await this.youtube.commentThreads.list(...)\<close> inside the
  \<^verbatim>\<open>try\<close> block of \<^verbatim>\<open>getVideoComments\<close>.
\<close>

definition comments_of_response :: "jsval \<Rightarrow> exn + jsval" where
  "comments_of_response response =
     and_then (get_prop response ''data'') (\<lambda>data.
     and_then (get_prop data ''items'') (\<lambda>items.
     and_then (extractEssentialComments (js_or items (JArr []))) (\<lambda>optimizedComments.
     and_then (get_prop data ''pageInfo'') (\<lambda>pageInfo.
       Inr (JObj [(''comments'', JArr optimizedComments), (''pageInfo'', pageInfo)])))))"

definition replies_of_response :: "jsval \<Rightarrow> exn + jsval" where
  "replies_of_response response =
     and_then (get_prop response ''data'') (\<lambda>data.
     and_then (get_prop data ''items'') (\<lambda>items.
     and_then (extractEssentialReplies (js_or items (JArr []))) (\<lambda>optimizedReplies.
       Inr (JArr optimizedReplies))))"

text \<open>
  Binding the parameter pattern \<^verbatim>\<open>{ p, ... }\<close> to \<^verbatim>\<open>undefined\<close> or \<^verbatim>\<open>null\<close>
  is a TypeError (in V8's wording, as are the other TypeErrors here); in an \<^verbatim>\<open>async\<close> function it rejects
  the promise, before the \<^verbatim>\<open>try\<close> block is entered.
\<close>

fun destructure :: "jsval \<Rightarrow> string \<Rightarrow> exn + jsval" where
  "destructure JUndefined k =
     Inl (JsTypeError (''Cannot destructure property '' @ [CHR 0x27] @ k @ [CHR 0x27] @
                       '' of '' @ [CHR 0x27] @ ''undefined'' @ [CHR 0x27] @ '' as it is undefined.''))"
| "destructure JNull k =
     Inl (JsTypeError (''Cannot destructure property '' @ [CHR 0x27] @ k @ [CHR 0x27] @
                       '' of '' @ [CHR 0x27] @ ''object null'' @ [CHR 0x27] @ '' as it is null.''))"
| "destructure v k = Inr (own_prop v k)"

text \<open>
  \<^verbatim>\<open>getVideoComments\<close>: the parameters are bound, then inside \<^verbatim>\<open>try\<close> come
  \<^verbatim>\<open>this.initialize()\<close>, the read of \<^verbatim>\<open>this.youtube.commentThreads\<close>, one awaited
  request and the projection of the response; \<^verbatim>\<open>catch\<close> rethrows with the prefix.
\<close>

definition getVideoComments :: "env \<Rightarrow> upstream \<Rightarrow> CommentService \<Rightarrow> jsval \<Rightarrow> outcome" where
  "getVideoComments env api this args =
     (case destructure args ''videoId'' of
        Inl e \<Rightarrow> \<lparr>result = Inl e, service = this, requests = []\<rparr>
      | Inr videoId \<Rightarrow>
          let maxResults = with_default (own_prop args ''maxResults'') (JNum 20);
              textFormat = with_default (own_prop args ''textFormat'') (JStr ''plainText'');
              req = (CommentThreads_list,
                     JObj [(''part'', JArr [JStr ''snippet'', JStr ''replies'']),
                           (''videoId'', videoId),
                           (''maxResults'', maxResults),
                           (''textFormat'', textFormat),
                           (''order'', JStr ''relevance'')])
          in (case initialize env this of
                Inl error \<Rightarrow>
                  \<lparr>result = rethrow ''Failed to get comments: '' (Inl error),
                   service = this, requests = []\<rparr>
              | Inr this' \<Rightarrow>
                  (case youtube this' of
                     None \<Rightarrow>
                       \<lparr>result = rethrow ''Failed to get comments: ''
                                   (Inl (cannot_read ''undefined'' ''commentThreads'')),
                        service = this', requests = []\<rparr>
                   | Some c \<Rightarrow>
                       \<lparr>result = rethrow ''Failed to get comments: ''
                                   (and_then (api c req) comments_of_response),
                        service = this', requests = [req]\<rparr>)))"

text \<open>\<^verbatim>\<open>getCommentReplies\<close>, of the same shape, on \<^verbatim>\<open>this.youtube.comments.list\<close>.\<close>

definition getCommentReplies :: "env \<Rightarrow> upstream \<Rightarrow> CommentService \<Rightarrow> jsval \<Rightarrow> outcome" where
  "getCommentReplies env api this args =
     (case destructure args ''parentId'' of
        Inl e \<Rightarrow> \<lparr>result = Inl e, service = this, requests = []\<rparr>
      | Inr parentId \<Rightarrow>
          let maxResults = with_default (own_prop args ''maxResults'') (JNum 20);
              textFormat = with_default (own_prop args ''textFormat'') (JStr ''plainText'');
              req = (Comments_list,
                     JObj [(''part'', JArr [JStr ''snippet'']),
                           (''parentId'', parentId),
                           (''maxResults'', maxResults),
                           (''textFormat'', textFormat)])
          in (case initialize env this of
                Inl error \<Rightarrow>
                  \<lparr>result = rethrow ''Failed to get replies: '' (Inl error),
                   service = this, requests = []\<rparr>
              | Inr this' \<Rightarrow>
                  (case youtube this' of
                     None \<Rightarrow>
                       \<lparr>result = rethrow ''Failed to get replies: ''
                                   (Inl (cannot_read ''undefined'' ''comments'')),
                        service = this', requests = []\<rparr>
                   | Some c \<Rightarrow>
                       \<lparr>result = rethrow ''Failed to get replies: ''
                                   (and_then (api c req) replies_of_response),
                        service = this', requests = [req]\<rparr>)))"

section \<open>Notions of the specification\<close>

text \<open>An object record, whatever its fields.\<close>

fun is_record :: "jsval \<Rightarrow> bool" where
  "is_record (JObj fs) = True"
| "is_record v = False"

text \<open>\<^verbatim>\<open>Object.keys\<close> of an object whose bindings have distinct keys.\<close>

fun own_keys :: "jsval \<Rightarrow> string list" where
  "own_keys (JObj fs) = map fst fs"
| "own_keys v = []"

text \<open>
  An already-projected comment: an object with exactly the fields \<^verbatim>\<open>parentId\<close> and
  \<^verbatim>\<open>text\<close>, in either order.
\<close>

definition is_projected :: "jsval \<Rightarrow> bool" where
  "is_projected r =
     (is_record r \<and> distinct (own_keys r) \<and> set (own_keys r) = {''parentId'', ''text''})"

text \<open>
  The nested snippet of a comment thread, \<^verbatim>\<open>snippet.topLevelComment.snippet\<close>, when all
  three levels are objects.
\<close>

definition nested_snippet :: "jsval \<Rightarrow> jsval option" where
  "nested_snippet r =
     (case r of
        JObj fs \<Rightarrow>
          (case map_of fs ''snippet'' of
             Some (JObj gs) \<Rightarrow>
               (case map_of gs ''topLevelComment'' of
                  Some (JObj hs) \<Rightarrow>
                    (case map_of hs ''snippet'' of Some (JObj ks) \<Rightarrow> Some (JObj ks) | _ \<Rightarrow> None)
                | _ \<Rightarrow> None)
           | _ \<Rightarrow> None)
      | _ \<Rightarrow> None)"

text \<open>
  The display text of a reply, \<^verbatim>\<open>snippet.textDisplay\<close>, when it is there and a string.
\<close>

definition display_text :: "jsval \<Rightarrow> string option" where
  "display_text r =
     (case r of
        JObj fs \<Rightarrow>
          (case map_of fs ''snippet'' of
             Some (JObj gs) \<Rightarrow>
               (case map_of gs ''textDisplay'' of Some (JStr s) \<Rightarrow> Some s | _ \<Rightarrow> None)
           | _ \<Rightarrow> None)
      | _ \<Rightarrow> None)"

text \<open>
  A reply record typed as the upstream API types it: an object whose \<^verbatim>\<open>snippet\<close> is
  absent, \<^verbatim>\<open>null\<close> or an object, and whose \<^verbatim>\<open>textDisplay\<close> there is absent,
  \<^verbatim>\<open>null\<close> or a string.
\<close>

definition reply_record :: "jsval \<Rightarrow> bool" where
  "reply_record r =
     (case r of
        JObj fs \<Rightarrow>
          (case map_of fs ''snippet'' of
             None \<Rightarrow> True
           | Some JUndefined \<Rightarrow> True
           | Some JNull \<Rightarrow> True
           | Some (JObj gs) \<Rightarrow>
               (case map_of gs ''textDisplay'' of
                  None \<Rightarrow> True
                | Some JUndefined \<Rightarrow> True
                | Some JNull \<Rightarrow> True
                | Some (JStr s) \<Rightarrow> True
                | _ \<Rightarrow> False)
           | _ \<Rightarrow> False)
      | _ \<Rightarrow> False)"

text \<open>
  The service can reach the upstream API with client \<open>c\<close>: it holds \<open>c\<close> already, or the
  environment has a non-empty key from which the first use constructs \<open>c\<close>.
\<close>

definition usable :: "env \<Rightarrow> CommentService \<Rightarrow> client \<Rightarrow> bool" where
  "usable env this c =
     (if initialized this then youtube this = Some c
      else (case env ''YOUTUBE_API_KEY'' of
              None \<Rightarrow> False
            | Some k \<Rightarrow> k \<noteq> [] \<and> c = \<lparr>version = ''v3'', auth = k\<rparr>))"

text \<open>The text the comment callback computes for an object record.\<close>

definition comment_text :: "jsval \<Rightarrow> jsval" where
  "comment_text c =
     js_or (opt_get (opt_get (opt_get (own_prop c ''snippet'') ''topLevelComment'') ''snippet'') ''textDisplay'')
           (JStr '''')"

text \<open>
  The request the specification describes for \<^verbatim>\<open>getVideoComments\<close>: one page of
  comment threads of the video, ordered by relevance, with \<^verbatim>\<open>maxResults\<close> 20 and
  \<^verbatim>\<open>textFormat\<close> \<^verbatim>\<open>'plainText'\<close> unless the arguments give them.
\<close>

definition comment_threads_request :: "jsval \<Rightarrow> request" where
  "comment_threads_request args =
     (CommentThreads_list,
      JObj [(''part'', JArr [JStr ''snippet'', JStr ''replies'']),
            (''videoId'', own_prop args ''videoId''),
            (''maxResults'',
               if own_prop args ''maxResults'' = JUndefined then JNum 20
               else own_prop args ''maxResults''),
            (''textFormat'',
               if own_prop args ''textFormat'' = JUndefined then JStr ''plainText''
               else own_prop args ''textFormat''),
            (''order'', JStr ''relevance'')])"

text \<open>The request the specification describes for \<^verbatim>\<open>getCommentReplies\<close>.\<close>

definition comments_request :: "jsval \<Rightarrow> request" where
  "comments_request args =
     (Comments_list,
      JObj [(''part'', JArr [JStr ''snippet'']),
            (''parentId'', own_prop args ''parentId''),
            (''maxResults'',
               if own_prop args ''maxResults'' = JUndefined then JNum 20
               else own_prop args ''maxResults''),
            (''textFormat'',
               if own_prop args ''textFormat'' = JUndefined then JStr ''plainText''
               else own_prop args ''textFormat'')])"

text \<open>Two upstream behaviours for examples: every request answered, every request rejected.\<close>

definition answering :: "jsval \<Rightarrow> upstream" where
  "answering response c req = Inr response"

definition rejecting :: "exn \<Rightarrow> upstream" where
  "rejecting e c req = Inl e"

text \<open>
  An already-projected comment whose \<^verbatim>\<open>parentId\<close> and \<^verbatim>\<open>text\<close> are both truthy
  (for strings: not empty).
\<close>

definition nonempty_projected :: "jsval \<Rightarrow> bool" where
  "nonempty_projected r =
     (is_projected r \<and> truthy (own_prop r ''parentId'') \<and> truthy (own_prop r ''text''))"

section \<open>The array loop and the callbacks on object records\<close>

lemma js_map_Inr:
  "(\<And>x. x \<in> set xs \<Longrightarrow> f x = Inr (g x)) \<Longrightarrow> js_map f xs = Inr (map g xs)"
  by (induction xs) auto

lemma js_map_nth:
  "js_map f xs = Inr ys \<Longrightarrow> length ys = length xs \<and> (\<forall>i<length xs. f (xs ! i) = Inr (ys ! i))"
proof (induction xs arbitrary: ys)
  case Nil
  then show ?case by simp
next
  case (Cons x xs)
  from Cons.prems obtain y ys' where fx: "f x = Inr y" and rest: "js_map f xs = Inr ys'" and ys: "ys = y # ys'"
    by (auto split: sum.splits)
  from Cons.IH [OF rest] have len: "length ys' = length xs"
    and nth: "\<forall>i<length xs. f (xs ! i) = Inr (ys' ! i)" by simp_all
  show ?case
  proof (intro conjI allI impI)
    show "length ys = length (x # xs)" using len ys by simp
  next
    fix i assume "i < length (x # xs)"
    then show "f ((x # xs) ! i) = Inr (ys ! i)"
      using fx nth ys by (cases i) simp_all
  qed
qed

lemma is_record_get_prop: "is_record v \<Longrightarrow> get_prop v k = Inr (own_prop v k)"
  by (cases v) simp_all

lemma extractEssentialComment_record:
  "is_record c \<Longrightarrow>
   extractEssentialComment c = Inr (JObj [(''parentId'', own_prop c ''id''), (''text'', comment_text c)])"
  by (simp add: extractEssentialComment_def and_then_def is_record_get_prop comment_text_def)

lemma extractEssentialReply_record:
  "is_record r \<Longrightarrow>
   extractEssentialReply r = Inr (js_or (opt_get (own_prop r ''snippet'') ''textDisplay'') (JStr ''''))"
  by (simp add: extractEssentialReply_def and_then_def is_record_get_prop)

lemma extractEssentialComments_records:
  "list_all is_record xs \<Longrightarrow>
   extractEssentialComments (JArr xs) =
     Inr (map (\<lambda>c. JObj [(''parentId'', own_prop c ''id''), (''text'', comment_text c)]) xs)"
  unfolding extractEssentialComments_def call_map.simps
  by (rule js_map_Inr) (simp add: extractEssentialComment_record list_all_iff)

lemma extractEssentialReplies_records:
  "list_all is_record xs \<Longrightarrow>
   extractEssentialReplies (JArr xs) =
     Inr (map (\<lambda>r. js_or (opt_get (own_prop r ''snippet'') ''textDisplay'') (JStr '''')) xs)"
  unfolding extractEssentialReplies_def call_map.simps
  by (rule js_map_Inr) (simp add: extractEssentialReply_record list_all_iff)

lemma comment_text_lacking: "nested_snippet r = None \<Longrightarrow> comment_text r = JStr ''''"
  unfolding nested_snippet_def comment_text_def js_or_def
  by (auto split: jsval.splits option.splits)

section \<open>Order preservation\<close>

text \<open>
  C5: on a sequence of n upstream records (objects), the projection of comment threads and
  the projection of replies each return a sequence of length n whose i-th element is what
  the callback makes of the i-th record: nothing is filtered out and nothing reordered.
\<close>

theorem projection_order_preserving:
  assumes "list_all is_record xs"
  shows "\<exists>ys zs.
           extractEssentialComments (JArr xs) = Inr ys \<and> length ys = length xs \<and>
           (\<forall>i<length xs. extractEssentialComment (xs ! i) = Inr (ys ! i)) \<and>
           extractEssentialReplies (JArr xs) = Inr zs \<and> length zs = length xs \<and>
           (\<forall>i<length xs. extractEssentialReply (xs ! i) = Inr (zs ! i))"
proof -
  obtain ys where ys: "extractEssentialComments (JArr xs) = Inr ys"
    using extractEssentialComments_records [OF assms] by simp
  obtain zs where zs: "extractEssentialReplies (JArr xs) = Inr zs"
    using extractEssentialReplies_records [OF assms] by simp
  from ys have "js_map extractEssentialComment xs = Inr ys"
    by (simp add: extractEssentialComments_def)
  from js_map_nth [OF this] have c: "length ys = length xs"
    "\<forall>i<length xs. extractEssentialComment (xs ! i) = Inr (ys ! i)" by simp_all
  from zs have "js_map extractEssentialReply xs = Inr zs"
    by (simp add: extractEssentialReplies_def)
  from js_map_nth [OF this] have r: "length zs = length xs"
    "\<forall>i<length xs. extractEssentialReply (xs ! i) = Inr (zs ! i)" by simp_all
  show ?thesis using ys zs c r by blast
qed

theorem projection_order_preserving_witness:
  "list_all is_record [JObj [(''id'', JStr ''t1'')], JObj []] \<and>
   (\<exists>ys zs.
      extractEssentialComments (JArr [JObj [(''id'', JStr ''t1'')], JObj []]) = Inr ys \<and>
      length ys = 2 \<and>
      extractEssentialComment (JObj [(''id'', JStr ''t1'')]) = Inr (ys ! 0) \<and>
      extractEssentialComment (JObj []) = Inr (ys ! 1) \<and>
      extractEssentialReplies (JArr [JObj [(''id'', JStr ''t1'')], JObj []]) = Inr zs \<and>
      length zs = 2 \<and>
      extractEssentialReply (JObj [(''id'', JStr ''t1'')]) = Inr (zs ! 0) \<and>
      extractEssentialReply (JObj []) = Inr (zs ! 1))"
proof -
  have h: "list_all is_record [JObj [(''id'', JStr ''t1'')], JObj []]" by simp
  from projection_order_preserving [OF h] obtain ys zs where
    c: "extractEssentialComments (JArr [JObj [(''id'', JStr ''t1'')], JObj []]) = Inr ys"
       "length ys = length [JObj [(''id'', JStr ''t1'')], JObj []]"
       "\<forall>i<length [JObj [(''id'', JStr ''t1'')], JObj []].
          extractEssentialComment ([JObj [(''id'', JStr ''t1'')], JObj []] ! i) = Inr (ys ! i)"
    and r: "extractEssentialReplies (JArr [JObj [(''id'', JStr ''t1'')], JObj []]) = Inr zs"
       "length zs = length [JObj [(''id'', JStr ''t1'')], JObj []]"
       "\<forall>i<length [JObj [(''id'', JStr ''t1'')], JObj []].
          extractEssentialReply ([JObj [(''id'', JStr ''t1'')], JObj []] ! i) = Inr (zs ! i)"
    by blast
  have c0: "extractEssentialComment (JObj [(''id'', JStr ''t1'')]) = Inr (ys ! 0)"
    using c(3) [rule_format, of 0] by simp
  have c1: "extractEssentialComment (JObj []) = Inr (ys ! 1)"
    using c(3) [rule_format, of 1] by simp
  have r0: "extractEssentialReply (JObj [(''id'', JStr ''t1'')]) = Inr (zs ! 0)"
    using r(3) [rule_format, of 0] by simp
  have r1: "extractEssentialReply (JObj []) = Inr (zs ! 1)"
    using r(3) [rule_format, of 1] by simp
  show ?thesis using h c(1,2) r(1,2) c0 c1 r0 r1 by simp
qed

section \<open>Pointwise projection\<close>

text \<open>
  C9: the projections are pointwise. For lists xs and ys of object records, projecting
  xs @ ys gives the projection of xs followed by the projection of ys, and projecting the
  one-element list [x] gives the one-element list of the callback's result on x; this
  holds for comment threads and for replies.
\<close>

theorem projection_pointwise:
  assumes "list_all is_record xs" and "list_all is_record ys" and "is_record x"
  shows "(\<exists>as bs p. extractEssentialComments (JArr xs) = Inr as \<and>
            extractEssentialComments (JArr ys) = Inr bs \<and>
            extractEssentialComments (JArr (xs @ ys)) = Inr (as @ bs) \<and>
            extractEssentialComment x = Inr p \<and>
            extractEssentialComments (JArr [x]) = Inr [p]) \<and>
         (\<exists>as bs p. extractEssentialReplies (JArr xs) = Inr as \<and>
            extractEssentialReplies (JArr ys) = Inr bs \<and>
            extractEssentialReplies (JArr (xs @ ys)) = Inr (as @ bs) \<and>
            extractEssentialReply x = Inr p \<and>
            extractEssentialReplies (JArr [x]) = Inr [p])"
proof -
  have both: "list_all is_record (xs @ ys)" using assms by simp
  have one: "list_all is_record [x]" using assms by simp
  have "\<exists>as bs p. extractEssentialComments (JArr xs) = Inr as \<and>
           extractEssentialComments (JArr ys) = Inr bs \<and>
           extractEssentialComments (JArr (xs @ ys)) = Inr (as @ bs) \<and>
           extractEssentialComment x = Inr p \<and>
           extractEssentialComments (JArr [x]) = Inr [p]"
    using extractEssentialComments_records [OF assms(1)]
      extractEssentialComments_records [OF assms(2)]
      extractEssentialComments_records [OF both]
      extractEssentialComments_records [OF one]
      extractEssentialComment_record [OF assms(3)]
    by simp
  moreover have "\<exists>as bs p. extractEssentialReplies (JArr xs) = Inr as \<and>
           extractEssentialReplies (JArr ys) = Inr bs \<and>
           extractEssentialReplies (JArr (xs @ ys)) = Inr (as @ bs) \<and>
           extractEssentialReply x = Inr p \<and>
           extractEssentialReplies (JArr [x]) = Inr [p]"
    using extractEssentialReplies_records [OF assms(1)]
      extractEssentialReplies_records [OF assms(2)]
      extractEssentialReplies_records [OF both]
      extractEssentialReplies_records [OF one]
      extractEssentialReply_record [OF assms(3)]
    by simp
  ultimately show ?thesis by blast
qed

theorem projection_pointwise_witness:
  "list_all is_record [JObj [(''id'', JStr ''a'')]] \<and> list_all is_record [JObj []] \<and>
   is_record (JObj [(''id'', JStr ''c'')]) \<and>
   (\<exists>as bs p. extractEssentialComments (JArr [JObj [(''id'', JStr ''a'')]]) = Inr as \<and>
      extractEssentialComments (JArr [JObj []]) = Inr bs \<and>
      extractEssentialComments (JArr ([JObj [(''id'', JStr ''a'')]] @ [JObj []])) = Inr (as @ bs) \<and>
      extractEssentialComment (JObj [(''id'', JStr ''c'')]) = Inr p \<and>
      extractEssentialComments (JArr [JObj [(''id'', JStr ''c'')]]) = Inr [p]) \<and>
   (\<exists>as bs p. extractEssentialReplies (JArr [JObj [(''id'', JStr ''a'')]]) = Inr as \<and>
      extractEssentialReplies (JArr [JObj []]) = Inr bs \<and>
      extractEssentialReplies (JArr ([JObj [(''id'', JStr ''a'')]] @ [JObj []])) = Inr (as @ bs) \<and>
      extractEssentialReply (JObj [(''id'', JStr ''c'')]) = Inr p \<and>
      extractEssentialReplies (JArr [JObj [(''id'', JStr ''c'')]]) = Inr [p])"
proof -
  have h1: "list_all is_record [JObj [(''id'', JStr ''a'')]]" by simp
  have h2: "list_all is_record [JObj []]" by simp
  have h3: "is_record (JObj [(''id'', JStr ''c'')])" by simp
  show ?thesis using h1 h2 h3 projection_pointwise [OF h1 h2 h3] by blast
qed

section \<open>Totality on object records\<close>

text \<open>
  C10: on an array whose elements are object records, whatever fields they have at
  whatever depth, \<^verbatim>\<open>extractEssentialComments\<close> and \<^verbatim>\<open>extractEssentialReplies\<close>
  return a list (they do not throw), and every record \<^verbatim>\<open>extractEssentialComments\<close>
  returns has exactly the two fields \<^verbatim>\<open>parentId\<close> and \<^verbatim>\<open>text\<close>.
\<close>

theorem projection_total:
  assumes "list_all is_record xs"
  shows "\<exists>ys zs. extractEssentialComments (JArr xs) = Inr ys \<and>
           list_all (\<lambda>y. own_keys y = [''parentId'', ''text'']) ys \<and>
           extractEssentialReplies (JArr xs) = Inr zs"
  using extractEssentialComments_records [OF assms] extractEssentialReplies_records [OF assms]
  by (auto simp: list_all_iff)

theorem projection_total_witness:
  "list_all is_record
     [JObj [(''snippet'', JObj [(''topLevelComment'', JNum 3)])], JObj [(''id'', JNull)]] \<and>
   (\<exists>ys zs.
      extractEssentialComments
        (JArr [JObj [(''snippet'', JObj [(''topLevelComment'', JNum 3)])], JObj [(''id'', JNull)]]) = Inr ys \<and>
      list_all (\<lambda>y. own_keys y = [''parentId'', ''text'']) ys \<and>
      extractEssentialReplies
        (JArr [JObj [(''snippet'', JObj [(''topLevelComment'', JNum 3)])], JObj [(''id'', JNull)]]) = Inr zs)"
proof -
  have h: "list_all is_record
     [JObj [(''snippet'', JObj [(''topLevelComment'', JNum 3)])], JObj [(''id'', JNull)]]" by simp
  show ?thesis using h projection_total [OF h] by blast
qed

section \<open>Defaulting of a missing snippet\<close>

text \<open>
  C6: a comment-thread record r without its nested snippet
  (\<^verbatim>\<open>snippet.topLevelComment.snippet\<close>) is projected, without failure, to the record
  whose \<^verbatim>\<open>text\<close> is the empty string and whose \<^verbatim>\<open>parentId\<close> is the record's
  \<^verbatim>\<open>id\<close>; in a batch xs @ r # ys of records the records before and after r are
  projected as they are without it.
\<close>

theorem missing_snippet_defaults:
  assumes "is_record r" and "nested_snippet r = None"
    and "list_all is_record xs" and "list_all is_record ys"
  shows "extractEssentialComment r = Inr (JObj [(''parentId'', own_prop r ''id''), (''text'', JStr '''')]) \<and>
         (\<exists>as bs. extractEssentialComments (JArr xs) = Inr as \<and>
            extractEssentialComments (JArr ys) = Inr bs \<and>
            extractEssentialComments (JArr (xs @ r # ys)) =
              Inr (as @ JObj [(''parentId'', own_prop r ''id''), (''text'', JStr '''')] # bs))"
proof -
  have all: "list_all is_record (xs @ r # ys)" using assms by simp
  show ?thesis
    using extractEssentialComment_record [OF assms(1)] comment_text_lacking [OF assms(2)]
      extractEssentialComments_records [OF assms(3)]
      extractEssentialComments_records [OF assms(4)]
      extractEssentialComments_records [OF all]
    by simp
qed

theorem missing_snippet_defaults_witness:
  "is_record (JObj [(''id'', JStr ''t2''), (''snippet'', JObj [(''totalReplyCount'', JNum 0)])]) \<and>
   nested_snippet (JObj [(''id'', JStr ''t2''), (''snippet'', JObj [(''totalReplyCount'', JNum 0)])]) = None \<and>
   list_all is_record [JObj [(''id'', JStr ''t1'')]] \<and>
   list_all is_record [JObj [(''id'', JStr ''t3'')]] \<and>
   extractEssentialComment (JObj [(''id'', JStr ''t2''), (''snippet'', JObj [(''totalReplyCount'', JNum 0)])])
     = Inr (JObj [(''parentId'', JStr ''t2''), (''text'', JStr '''')]) \<and>
   (\<exists>as bs. extractEssentialComments (JArr [JObj [(''id'', JStr ''t1'')]]) = Inr as \<and>
      extractEssentialComments (JArr [JObj [(''id'', JStr ''t3'')]]) = Inr bs \<and>
      extractEssentialComments
        (JArr ([JObj [(''id'', JStr ''t1'')]] @
               JObj [(''id'', JStr ''t2''), (''snippet'', JObj [(''totalReplyCount'', JNum 0)])] #
               [JObj [(''id'', JStr ''t3'')]]))
        = Inr (as @ JObj [(''parentId'', JStr ''t2''), (''text'', JStr '''')] # bs))"
proof -
  have h1: "is_record (JObj [(''id'', JStr ''t2''), (''snippet'', JObj [(''totalReplyCount'', JNum 0)])])"
    by simp
  have h2: "nested_snippet (JObj [(''id'', JStr ''t2''), (''snippet'', JObj [(''totalReplyCount'', JNum 0)])]) = None"
    by (simp add: nested_snippet_def)
  have id: "own_prop (JObj [(''id'', JStr ''t2''), (''snippet'', JObj [(''totalReplyCount'', JNum 0)])]) ''id''
              = JStr ''t2''" by simp
  have h3: "list_all is_record [JObj [(''id'', JStr ''t1'')]]" by simp
  have h4: "list_all is_record [JObj [(''id'', JStr ''t3'')]]" by simp
  show ?thesis using h1 h2 h3 h4 missing_snippet_defaults [OF h1 h2 h3 h4] unfolding id by blast
qed

section \<open>The operations in closed form\<close>

lemma destructure_not_nullish: "\<not> nullish args \<Longrightarrow> destructure args k = Inr (own_prop args k)"
  by (cases args) (simp_all add: nullish_def)

lemma is_record_not_nullish: "is_record v \<Longrightarrow> \<not> nullish v"
  by (cases v) (simp_all add: nullish_def)

lemma initialize_usable:
  "usable env this c \<Longrightarrow> initialize env this = Inr \<lparr>youtube = Some c, initialized = True\<rparr>"
  by (cases this) (auto simp: usable_def initialize_def split: if_splits option.splits)

lemma initialize_initialized: "initialized this \<Longrightarrow> initialize env this = Inr this"
  by (simp add: initialize_def)

lemma initialize_no_key:
  "\<not> initialized this \<Longrightarrow> env ''YOUTUBE_API_KEY'' = None \<or> env ''YOUTUBE_API_KEY'' = Some [] \<Longrightarrow>
   initialize env this = Inl (JsError ''YOUTUBE_API_KEY environment variable is not set.'')"
  by (auto simp: initialize_def)

lemma getVideoComments_usable:
  assumes "usable env this c" and "\<not> nullish args"
  shows "getVideoComments env api this args =
           \<lparr>result = rethrow ''Failed to get comments: ''
                        (and_then (api c (comment_threads_request args)) comments_of_response),
            service = \<lparr>youtube = Some c, initialized = True\<rparr>,
            requests = [comment_threads_request args]\<rparr>"
  by (simp add: getVideoComments_def destructure_not_nullish [OF assms(2)]
      initialize_usable [OF assms(1)] comment_threads_request_def with_default_def Let_def)

lemma getCommentReplies_usable:
  assumes "usable env this c" and "\<not> nullish args"
  shows "getCommentReplies env api this args =
           \<lparr>result = rethrow ''Failed to get replies: ''
                        (and_then (api c (comments_request args)) replies_of_response),
            service = \<lparr>youtube = Some c, initialized = True\<rparr>,
            requests = [comments_request args]\<rparr>"
  by (simp add: getCommentReplies_def destructure_not_nullish [OF assms(2)]
      initialize_usable [OF assms(1)] comments_request_def with_default_def Let_def)

lemma comments_of_response_items:
  assumes "is_record response" and "is_record (own_prop response ''data'')"
    and "own_prop (own_prop response ''data'') ''items'' = JArr xs" and "list_all is_record xs"
  shows "comments_of_response response =
           Inr (JObj [(''comments'',
                       JArr (map (\<lambda>c. JObj [(''parentId'', own_prop c ''id''), (''text'', comment_text c)]) xs)),
                      (''pageInfo'', own_prop (own_prop response ''data'') ''pageInfo'')])"
  using assms
  by (simp add: comments_of_response_def and_then_def is_record_get_prop js_or_def
      extractEssentialComments_records)

lemma comments_of_response_no_items:
  assumes "is_record response" and "is_record (own_prop response ''data'')"
    and "nullish (own_prop (own_prop response ''data'') ''items'')"
  shows "comments_of_response response =
           Inr (JObj [(''comments'', JArr []),
                      (''pageInfo'', own_prop (own_prop response ''data'') ''pageInfo'')])"
  using assms
  by (auto simp: comments_of_response_def and_then_def is_record_get_prop js_or_def nullish_def
      extractEssentialComments_def)

lemma extractEssentialReply_reply_record:
  "reply_record r \<Longrightarrow>
   extractEssentialReply r = Inr (JStr (case display_text r of Some s \<Rightarrow> s | None \<Rightarrow> ''''))"
  unfolding reply_record_def display_text_def extractEssentialReply_def and_then_def js_or_def
  by (auto split: jsval.splits option.splits)

lemma replies_of_response_items:
  assumes "is_record response" and "is_record (own_prop response ''data'')"
    and "own_prop (own_prop response ''data'') ''items'' = JArr xs" and "list_all reply_record xs"
  shows "replies_of_response response =
           Inr (JArr (map (\<lambda>r. JStr (case display_text r of Some s \<Rightarrow> s | None \<Rightarrow> '''')) xs))"
proof -
  have "js_map extractEssentialReply xs =
          Inr (map (\<lambda>r. JStr (case display_text r of Some s \<Rightarrow> s | None \<Rightarrow> '''')) xs)"
    by (rule js_map_Inr) (use assms(4) in \<open>simp add: extractEssentialReply_reply_record list_all_iff\<close>)
  then show ?thesis
    using assms(1-3)
    by (simp add: replies_of_response_def and_then_def is_record_get_prop js_or_def
        extractEssentialReplies_def)
qed

lemma replies_of_response_no_items:
  assumes "is_record response" and "is_record (own_prop response ''data'')"
    and "nullish (own_prop (own_prop response ''data'') ''items'')"
  shows "replies_of_response response = Inr (JArr [])"
  using assms
  by (auto simp: replies_of_response_def and_then_def is_record_get_prop js_or_def nullish_def
      extractEssentialReplies_def)

section \<open>One page of comment threads\<close>

text \<open>
  C3: called with an argument object on a service that can reach the upstream API,
  \<^verbatim>\<open>getVideoComments\<close> issues exactly one request, the comment-thread request of the
  specification (relevance order, \<^verbatim>\<open>maxResults\<close> 20 and \<^verbatim>\<open>textFormat\<close>
  \<^verbatim>\<open>'plainText'\<close> by default). When the response carries n comment-thread records it
  returns \<^verbatim>\<open>{comments, pageInfo}\<close> where \<^verbatim>\<open>comments\<close> has length n, its i-th
  element is the projection of the i-th record and has exactly the keys \<^verbatim>\<open>parentId\<close>
  and \<^verbatim>\<open>text\<close>, and \<^verbatim>\<open>pageInfo\<close> is the response's own.
\<close>

theorem getVideoComments_one_page:
  assumes "usable env this c" and "is_record args"
    and "api c (comment_threads_request args) = Inr response"
    and "is_record response" and "is_record (own_prop response ''data'')"
    and "own_prop (own_prop response ''data'') ''items'' = JArr xs"
    and "list_all is_record xs"
  shows "\<exists>ys. getVideoComments env api this args =
                 \<lparr>result = Inr (JObj [(''comments'', JArr ys),
                                      (''pageInfo'', own_prop (own_prop response ''data'') ''pageInfo'')]),
                  service = \<lparr>youtube = Some c, initialized = True\<rparr>,
                  requests = [comment_threads_request args]\<rparr> \<and>
              length ys = length xs \<and>
              list_all (\<lambda>y. own_keys y = [''parentId'', ''text'']) ys \<and>
              (\<forall>i<length xs. extractEssentialComment (xs ! i) = Inr (ys ! i))"
proof -
  let ?ys = "map (\<lambda>c. JObj [(''parentId'', own_prop c ''id''), (''text'', comment_text c)]) xs"
  have call: "getVideoComments env api this args =
                 \<lparr>result = Inr (JObj [(''comments'', JArr ?ys),
                                      (''pageInfo'', own_prop (own_prop response ''data'') ''pageInfo'')]),
                  service = \<lparr>youtube = Some c, initialized = True\<rparr>,
                  requests = [comment_threads_request args]\<rparr>"
    using getVideoComments_usable [OF assms(1) is_record_not_nullish [OF assms(2)], of api]
      comments_of_response_items [OF assms(4-7)] assms(3)
    by (simp add: and_then_def rethrow_def)
  have keys: "list_all (\<lambda>y. own_keys y = [''parentId'', ''text'']) ?ys"
    by (simp add: list_all_iff)
  have nth: "\<forall>i<length xs. extractEssentialComment (xs ! i) = Inr (?ys ! i)"
    using assms(7) by (simp add: extractEssentialComment_record list_all_length)
  show ?thesis using call keys nth by (intro exI [of _ ?ys]) simp
qed

theorem getVideoComments_one_page_witness:
  "usable (map_of [(''YOUTUBE_API_KEY'', ''k'')]) constructor \<lparr>version = ''v3'', auth = ''k''\<rparr> \<and>
   is_record (JObj [(''videoId'', JStr ''dQw4w9WgXcQ'')]) \<and>
   (\<exists>ys. getVideoComments (map_of [(''YOUTUBE_API_KEY'', ''k'')])
            (answering (JObj [(''data'',
               JObj [(''items'',
                      JArr [JObj [(''id'', JStr ''t1''),
                                  (''snippet'', JObj [(''topLevelComment'',
                                     JObj [(''snippet'', JObj [(''textDisplay'', JStr ''hi'')])])])],
                            JObj [(''id'', JStr ''t2'')]]),
                     (''pageInfo'', JObj [(''totalResults'', JNum 2)])])]))
            constructor (JObj [(''videoId'', JStr ''dQw4w9WgXcQ'')]) =
          \<lparr>result = Inr (JObj [(''comments'', JArr ys),
                               (''pageInfo'', JObj [(''totalResults'', JNum 2)])]),
           service = \<lparr>youtube = Some \<lparr>version = ''v3'', auth = ''k''\<rparr>, initialized = True\<rparr>,
           requests = [(CommentThreads_list,
                        JObj [(''part'', JArr [JStr ''snippet'', JStr ''replies'']),
                              (''videoId'', JStr ''dQw4w9WgXcQ''),
                              (''maxResults'', JNum 20),
                              (''textFormat'', JStr ''plainText''),
                              (''order'', JStr ''relevance'')])]\<rparr> \<and>
          length ys = 2 \<and>
          list_all (\<lambda>y. own_keys y = [''parentId'', ''text'']) ys)"
proof -
  let ?env = "map_of [(''YOUTUBE_API_KEY'', ''k'')]"
  let ?c = "\<lparr>version = ''v3'', auth = ''k''\<rparr>"
  let ?args = "JObj [(''videoId'', JStr ''dQw4w9WgXcQ'')]"
  let ?xs = "[JObj [(''id'', JStr ''t1''),
                    (''snippet'', JObj [(''topLevelComment'',
                       JObj [(''snippet'', JObj [(''textDisplay'', JStr ''hi'')])])])],
              JObj [(''id'', JStr ''t2'')]]"
  let ?response = "JObj [(''data'', JObj [(''items'', JArr ?xs),
                                          (''pageInfo'', JObj [(''totalResults'', JNum 2)])])]"
  have h1: "usable ?env constructor ?c" by (simp add: usable_def constructor_def)
  have h2: "is_record ?args" by simp
  have h3: "answering ?response ?c (comment_threads_request ?args) = Inr ?response"
    by (simp add: answering_def)
  have h4: "is_record ?response" by simp
  have h5: "is_record (own_prop ?response ''data'')" by simp
  have h6: "own_prop (own_prop ?response ''data'') ''items'' = JArr ?xs" by simp
  have h7: "list_all is_record ?xs" by simp
  have req: "comment_threads_request ?args =
               (CommentThreads_list,
                JObj [(''part'', JArr [JStr ''snippet'', JStr ''replies'']),
                      (''videoId'', JStr ''dQw4w9WgXcQ''),
                      (''maxResults'', JNum 20),
                      (''textFormat'', JStr ''plainText''),
                      (''order'', JStr ''relevance'')])"
    by (simp add: comment_threads_request_def)
  have page: "own_prop (own_prop ?response ''data'') ''pageInfo'' = JObj [(''totalResults'', JNum 2)]"
    by simp
  from getVideoComments_one_page [where api = "answering ?response", OF h1 h2 h3 h4 h5 h6 h7]
  show ?thesis unfolding req page using h1 h2 by auto
qed

section \<open>Replies as a sequence of strings\<close>

text \<open>
  C4: called with an argument object on a service that can reach the upstream API,
  \<^verbatim>\<open>getCommentReplies\<close> issues the reply request of the specification
  (\<^verbatim>\<open>maxResults\<close> 20 and \<^verbatim>\<open>textFormat\<close> \<^verbatim>\<open>'plainText'\<close> by default) and, when
  the response carries n reply records, returns an array of n strings whose i-th element
  is the display text of the i-th reply, or the empty string when that text is absent.
\<close>

theorem getCommentReplies_strings:
  assumes "usable env this c" and "is_record args"
    and "api c (comments_request args) = Inr response"
    and "is_record response" and "is_record (own_prop response ''data'')"
    and "own_prop (own_prop response ''data'') ''items'' = JArr xs"
    and "list_all reply_record xs"
  shows "getCommentReplies env api this args =
           \<lparr>result = Inr (JArr (map (\<lambda>r. JStr (case display_text r of Some s \<Rightarrow> s | None \<Rightarrow> '''')) xs)),
            service = \<lparr>youtube = Some c, initialized = True\<rparr>,
            requests = [comments_request args]\<rparr>"
  using getCommentReplies_usable [OF assms(1) is_record_not_nullish [OF assms(2)], of api]
    replies_of_response_items [OF assms(4-7)] assms(3)
  by (simp add: and_then_def rethrow_def)

theorem getCommentReplies_strings_witness:
  "usable (map_of [(''YOUTUBE_API_KEY'', ''k'')]) constructor \<lparr>version = ''v3'', auth = ''k''\<rparr> \<and>
   is_record (JObj [(''parentId'', JStr ''abc'')]) \<and>
   list_all reply_record
     [JObj [(''id'', JStr ''r1''), (''snippet'', JObj [(''textDisplay'', JStr ''first'')])],
      JObj [(''id'', JStr ''r2''), (''snippet'', JObj [(''parentId'', JStr ''abc'')])]] \<and>
   getCommentReplies (map_of [(''YOUTUBE_API_KEY'', ''k'')])
     (answering (JObj [(''data'',
        JObj [(''items'',
               JArr [JObj [(''id'', JStr ''r1''), (''snippet'', JObj [(''textDisplay'', JStr ''first'')])],
                     JObj [(''id'', JStr ''r2''), (''snippet'', JObj [(''parentId'', JStr ''abc'')])]])])]))
     constructor (JObj [(''parentId'', JStr ''abc'')]) =
   \<lparr>result = Inr (JArr [JStr ''first'', JStr '''']),
    service = \<lparr>youtube = Some \<lparr>version = ''v3'', auth = ''k''\<rparr>, initialized = True\<rparr>,
    requests = [(Comments_list,
                 JObj [(''part'', JArr [JStr ''snippet'']),
                       (''parentId'', JStr ''abc''),
                       (''maxResults'', JNum 20),
                       (''textFormat'', JStr ''plainText'')])]\<rparr>"
proof -
  let ?env = "map_of [(''YOUTUBE_API_KEY'', ''k'')]"
  let ?c = "\<lparr>version = ''v3'', auth = ''k''\<rparr>"
  let ?args = "JObj [(''parentId'', JStr ''abc'')]"
  let ?xs = "[JObj [(''id'', JStr ''r1''), (''snippet'', JObj [(''textDisplay'', JStr ''first'')])],
              JObj [(''id'', JStr ''r2''), (''snippet'', JObj [(''parentId'', JStr ''abc'')])]]"
  let ?response = "JObj [(''data'', JObj [(''items'', JArr ?xs)])]"
  have h1: "usable ?env constructor ?c" by (simp add: usable_def constructor_def)
  have h2: "is_record ?args" by simp
  have h3: "answering ?response ?c (comments_request ?args) = Inr ?response"
    by (simp add: answering_def)
  have h4: "is_record ?response" by simp
  have h5: "is_record (own_prop ?response ''data'')" by simp
  have h6: "own_prop (own_prop ?response ''data'') ''items'' = JArr ?xs" by simp
  have h7: "list_all reply_record ?xs" by (simp add: reply_record_def)
  have req: "comments_request ?args =
               (Comments_list,
                JObj [(''part'', JArr [JStr ''snippet'']),
                      (''parentId'', JStr ''abc''),
                      (''maxResults'', JNum 20),
                      (''textFormat'', JStr ''plainText'')])"
    by (simp add: comments_request_def)
  have texts: "map (\<lambda>r. JStr (case display_text r of Some s \<Rightarrow> s | None \<Rightarrow> '''')) ?xs
                 = [JStr ''first'', JStr '''']"
    by (simp add: display_text_def)
  from getCommentReplies_strings [where api = "answering ?response", OF h1 h2 h3 h4 h5 h6 h7]
  show ?thesis unfolding req texts using h1 h2 h7 by simp
qed

section \<open>Upstream failures\<close>

text \<open>
  C7: when the upstream call of \<^verbatim>\<open>getVideoComments\<close> or \<^verbatim>\<open>getCommentReplies\<close>
  fails, the operation fails as a whole with one \<^verbatim>\<open>Error\<close>, after that one request
  and with no result, not even a partial one. Its message is the operation's prefix
  followed by the text of the failure: the message m of a rejected \<^verbatim>\<open>Error\<close>, the
  message m of a rejected \<^verbatim>\<open>TypeError\<close>, and the string form s of any other rejected
  value. Every rejection is one of these three.
\<close>

theorem upstream_failure_fails_operation:
  assumes "usable env this c" and "\<not> nullish args"
  shows "(api c (comment_threads_request args) = Inl (JsError m) \<longrightarrow>
            getVideoComments env api this args =
              \<lparr>result = Inl (JsError (''Failed to get comments: '' @ m)),
               service = \<lparr>youtube = Some c, initialized = True\<rparr>,
               requests = [comment_threads_request args]\<rparr>) \<and>
         (api c (comment_threads_request args) = Inl (JsTypeError m) \<longrightarrow>
            getVideoComments env api this args =
              \<lparr>result = Inl (JsError (''Failed to get comments: '' @ m)),
               service = \<lparr>youtube = Some c, initialized = True\<rparr>,
               requests = [comment_threads_request args]\<rparr>) \<and>
         (api c (comment_threads_request args) = Inl (JsThrown s) \<longrightarrow>
            getVideoComments env api this args =
              \<lparr>result = Inl (JsError (''Failed to get comments: '' @ s)),
               service = \<lparr>youtube = Some c, initialized = True\<rparr>,
               requests = [comment_threads_request args]\<rparr>) \<and>
         (api c (comments_request args) = Inl (JsError m) \<longrightarrow>
            getCommentReplies env api this args =
              \<lparr>result = Inl (JsError (''Failed to get replies: '' @ m)),
               service = \<lparr>youtube = Some c, initialized = True\<rparr>,
               requests = [comments_request args]\<rparr>) \<and>
         (api c (comments_request args) = Inl (JsTypeError m) \<longrightarrow>
            getCommentReplies env api this args =
              \<lparr>result = Inl (JsError (''Failed to get replies: '' @ m)),
               service = \<lparr>youtube = Some c, initialized = True\<rparr>,
               requests = [comments_request args]\<rparr>) \<and>
         (api c (comments_request args) = Inl (JsThrown s) \<longrightarrow>
            getCommentReplies env api this args =
              \<lparr>result = Inl (JsError (''Failed to get replies: '' @ s)),
               service = \<lparr>youtube = Some c, initialized = True\<rparr>,
               requests = [comments_request args]\<rparr>) \<and>
         (\<forall>e. api c (comment_threads_request args) = Inl e \<longrightarrow>
            (\<exists>t. (e = JsError t \<or> e = JsTypeError t \<or> e = JsThrown t) \<and>
                 result (getVideoComments env api this args) =
                   Inl (JsError (''Failed to get comments: '' @ t)))) \<and>
         (\<forall>e. api c (comments_request args) = Inl e \<longrightarrow>
            (\<exists>t. (e = JsError t \<or> e = JsTypeError t \<or> e = JsThrown t) \<and>
                 result (getCommentReplies env api this args) =
                   Inl (JsError (''Failed to get replies: '' @ t))))"
proof -
  note v = getVideoComments_usable [OF assms, of api]
  note r = getCommentReplies_usable [OF assms, of api]
  have cases_v: "\<forall>e. api c (comment_threads_request args) = Inl e \<longrightarrow>
            (\<exists>t. (e = JsError t \<or> e = JsTypeError t \<or> e = JsThrown t) \<and>
                 result (getVideoComments env api this args) =
                   Inl (JsError (''Failed to get comments: '' @ t)))"
  proof (intro allI impI)
    fix e assume "api c (comment_threads_request args) = Inl e"
    then show "\<exists>t. (e = JsError t \<or> e = JsTypeError t \<or> e = JsThrown t) \<and>
                 result (getVideoComments env api this args) =
                   Inl (JsError (''Failed to get comments: '' @ t))"
      using v by (cases e) (simp_all add: and_then_def rethrow_def)
  qed
  have cases_r: "\<forall>e. api c (comments_request args) = Inl e \<longrightarrow>
            (\<exists>t. (e = JsError t \<or> e = JsTypeError t \<or> e = JsThrown t) \<and>
                 result (getCommentReplies env api this args) =
                   Inl (JsError (''Failed to get replies: '' @ t)))"
  proof (intro allI impI)
    fix e assume "api c (comments_request args) = Inl e"
    then show "\<exists>t. (e = JsError t \<or> e = JsTypeError t \<or> e = JsThrown t) \<and>
                 result (getCommentReplies env api this args) =
                   Inl (JsError (''Failed to get replies: '' @ t))"
      using r by (cases e) (simp_all add: and_then_def rethrow_def)
  qed
  show ?thesis
  proof (intro conjI)
    show "\<forall>e. api c (comment_threads_request args) = Inl e \<longrightarrow>
            (\<exists>t. (e = JsError t \<or> e = JsTypeError t \<or> e = JsThrown t) \<and>
                 result (getVideoComments env api this args) =
                   Inl (JsError (''Failed to get comments: '' @ t)))"
      by (rule cases_v)
    show "\<forall>e. api c (comments_request args) = Inl e \<longrightarrow>
            (\<exists>t. (e = JsError t \<or> e = JsTypeError t \<or> e = JsThrown t) \<and>
                 result (getCommentReplies env api this args) =
                   Inl (JsError (''Failed to get replies: '' @ t)))"
      by (rule cases_r)
  qed (simp_all add: v r and_then_def rethrow_def)
qed

theorem upstream_failure_fails_operation_witness:
  "usable (map_of [(''YOUTUBE_API_KEY'', ''k'')]) constructor \<lparr>version = ''v3'', auth = ''k''\<rparr> \<and>
   \<not> nullish (JObj [(''videoId'', JStr ''v''), (''parentId'', JStr ''p'')]) \<and>
   rejecting (JsError ''quotaExceeded'') \<lparr>version = ''v3'', auth = ''k''\<rparr>
     (comment_threads_request (JObj [(''videoId'', JStr ''v''), (''parentId'', JStr ''p'')]))
     = Inl (JsError ''quotaExceeded'') \<and>
   getVideoComments (map_of [(''YOUTUBE_API_KEY'', ''k'')]) (rejecting (JsError ''quotaExceeded''))
       constructor (JObj [(''videoId'', JStr ''v''), (''parentId'', JStr ''p'')])
     = \<lparr>result = Inl (JsError ''Failed to get comments: quotaExceeded''),
        service = \<lparr>youtube = Some \<lparr>version = ''v3'', auth = ''k''\<rparr>, initialized = True\<rparr>,
        requests = [comment_threads_request (JObj [(''videoId'', JStr ''v''), (''parentId'', JStr ''p'')])]\<rparr> \<and>
   rejecting (JsTypeError ''fetch failed'') \<lparr>version = ''v3'', auth = ''k''\<rparr>
     (comment_threads_request (JObj [(''videoId'', JStr ''v''), (''parentId'', JStr ''p'')]))
     = Inl (JsTypeError ''fetch failed'') \<and>
   result (getVideoComments (map_of [(''YOUTUBE_API_KEY'', ''k'')]) (rejecting (JsTypeError ''fetch failed''))
             constructor (JObj [(''videoId'', JStr ''v''), (''parentId'', JStr ''p'')]))
     = Inl (JsError ''Failed to get comments: fetch failed'') \<and>
   rejecting (JsThrown ''timeout'') \<lparr>version = ''v3'', auth = ''k''\<rparr>
     (comment_threads_request (JObj [(''videoId'', JStr ''v''), (''parentId'', JStr ''p'')]))
     = Inl (JsThrown ''timeout'') \<and>
   result (getVideoComments (map_of [(''YOUTUBE_API_KEY'', ''k'')]) (rejecting (JsThrown ''timeout''))
             constructor (JObj [(''videoId'', JStr ''v''), (''parentId'', JStr ''p'')]))
     = Inl (JsError ''Failed to get comments: timeout'') \<and>
   rejecting (JsError ''quotaExceeded'') \<lparr>version = ''v3'', auth = ''k''\<rparr>
     (comments_request (JObj [(''videoId'', JStr ''v''), (''parentId'', JStr ''p'')]))
     = Inl (JsError ''quotaExceeded'') \<and>
   result (getCommentReplies (map_of [(''YOUTUBE_API_KEY'', ''k'')]) (rejecting (JsError ''quotaExceeded''))
             constructor (JObj [(''videoId'', JStr ''v''), (''parentId'', JStr ''p'')]))
     = Inl (JsError ''Failed to get replies: quotaExceeded'') \<and>
   rejecting (JsTypeError ''fetch failed'') \<lparr>version = ''v3'', auth = ''k''\<rparr>
     (comments_request (JObj [(''videoId'', JStr ''v''), (''parentId'', JStr ''p'')]))
     = Inl (JsTypeError ''fetch failed'') \<and>
   result (getCommentReplies (map_of [(''YOUTUBE_API_KEY'', ''k'')]) (rejecting (JsTypeError ''fetch failed''))
             constructor (JObj [(''videoId'', JStr ''v''), (''parentId'', JStr ''p'')]))
     = Inl (JsError ''Failed to get replies: fetch failed'') \<and>
   rejecting (JsThrown ''timeout'') \<lparr>version = ''v3'', auth = ''k''\<rparr>
     (comments_request (JObj [(''videoId'', JStr ''v''), (''parentId'', JStr ''p'')]))
     = Inl (JsThrown ''timeout'') \<and>
   result (getCommentReplies (map_of [(''YOUTUBE_API_KEY'', ''k'')]) (rejecting (JsThrown ''timeout''))
             constructor (JObj [(''videoId'', JStr ''v''), (''parentId'', JStr ''p'')]))
     = Inl (JsError ''Failed to get replies: timeout'')"
proof -
  let ?env = "map_of [(''YOUTUBE_API_KEY'', ''k'')]"
  let ?c = "\<lparr>version = ''v3'', auth = ''k''\<rparr>"
  let ?args = "JObj [(''videoId'', JStr ''v''), (''parentId'', JStr ''p'')]"
  have h1: "usable ?env constructor ?c" by (simp add: usable_def constructor_def)
  have h2: "\<not> nullish ?args" by (simp add: nullish_def)
  have rej: "\<And>e req. rejecting e ?c req = Inl e" by (simp add: rejecting_def)
  note plain = upstream_failure_fails_operation
    [where api = "rejecting (JsError ''quotaExceeded'')" and m = "''quotaExceeded''", OF h1 h2]
  note typed = upstream_failure_fails_operation
    [where api = "rejecting (JsTypeError ''fetch failed'')" and m = "''fetch failed''", OF h1 h2]
  note other = upstream_failure_fails_operation
    [where api = "rejecting (JsThrown ''timeout'')" and s = "''timeout''", OF h1 h2]
  have p1: "getVideoComments ?env (rejecting (JsError ''quotaExceeded'')) constructor ?args
     = \<lparr>result = Inl (JsError ''Failed to get comments: quotaExceeded''),
        service = \<lparr>youtube = Some ?c, initialized = True\<rparr>,
        requests = [comment_threads_request ?args]\<rparr>"
    using plain rej by simp
  have p2: "result (getCommentReplies ?env (rejecting (JsError ''quotaExceeded'')) constructor ?args)
     = Inl (JsError ''Failed to get replies: quotaExceeded'')"
    using plain rej by simp
  have t1: "result (getVideoComments ?env (rejecting (JsTypeError ''fetch failed'')) constructor ?args)
     = Inl (JsError ''Failed to get comments: fetch failed'')"
    using typed rej by simp
  have t2: "result (getCommentReplies ?env (rejecting (JsTypeError ''fetch failed'')) constructor ?args)
     = Inl (JsError ''Failed to get replies: fetch failed'')"
    using typed rej by simp
  have o1: "result (getVideoComments ?env (rejecting (JsThrown ''timeout'')) constructor ?args)
     = Inl (JsError ''Failed to get comments: timeout'')"
    using other rej by simp
  have o2: "result (getCommentReplies ?env (rejecting (JsThrown ''timeout'')) constructor ?args)
     = Inl (JsError ''Failed to get replies: timeout'')"
    using other rej by simp
  show ?thesis using h1 h2 rej p1 p2 t1 t2 o1 o2 by simp
qed

section \<open>A response without an items list\<close>

text \<open>
  C8: when the response's \<^verbatim>\<open>data\<close> has no \<^verbatim>\<open>items\<close> list (the field is absent,
  \<^verbatim>\<open>undefined\<close> or \<^verbatim>\<open>null\<close>), \<^verbatim>\<open>getVideoComments\<close> succeeds with
  \<^verbatim>\<open>{comments: [], pageInfo}\<close> and \<^verbatim>\<open>getCommentReplies\<close> succeeds with the empty
  array.
\<close>

theorem missing_items_give_empty_result:
  assumes "usable env this c" and "is_record args"
    and "is_record response" and "is_record (own_prop response ''data'')"
    and "nullish (own_prop (own_prop response ''data'') ''items'')"
  shows "(api c (comment_threads_request args) = Inr response \<longrightarrow>
            getVideoComments env api this args =
              \<lparr>result = Inr (JObj [(''comments'', JArr []),
                                   (''pageInfo'', own_prop (own_prop response ''data'') ''pageInfo'')]),
               service = \<lparr>youtube = Some c, initialized = True\<rparr>,
               requests = [comment_threads_request args]\<rparr>) \<and>
         (api c (comments_request args) = Inr response \<longrightarrow>
            getCommentReplies env api this args =
              \<lparr>result = Inr (JArr []),
               service = \<lparr>youtube = Some c, initialized = True\<rparr>,
               requests = [comments_request args]\<rparr>)"
  using getVideoComments_usable [OF assms(1) is_record_not_nullish [OF assms(2)], of api]
    getCommentReplies_usable [OF assms(1) is_record_not_nullish [OF assms(2)], of api]
    comments_of_response_no_items [OF assms(3-5)] replies_of_response_no_items [OF assms(3-5)]
  by (simp add: and_then_def rethrow_def)

theorem missing_items_give_empty_result_witness:
  "usable (map_of [(''YOUTUBE_API_KEY'', ''k'')]) constructor \<lparr>version = ''v3'', auth = ''k''\<rparr> \<and>
   is_record (JObj [(''videoId'', JStr ''v''), (''parentId'', JStr ''p'')]) \<and>
   nullish (own_prop (own_prop (JObj [(''data'', JObj [(''pageInfo'', JObj [(''totalResults'', JNum 0)])])])
                        ''data'') ''items'') \<and>
   result (getVideoComments (map_of [(''YOUTUBE_API_KEY'', ''k'')])
             (answering (JObj [(''data'', JObj [(''pageInfo'', JObj [(''totalResults'', JNum 0)])])]))
             constructor (JObj [(''videoId'', JStr ''v''), (''parentId'', JStr ''p'')]))
     = Inr (JObj [(''comments'', JArr []), (''pageInfo'', JObj [(''totalResults'', JNum 0)])]) \<and>
   result (getCommentReplies (map_of [(''YOUTUBE_API_KEY'', ''k'')])
             (answering (JObj [(''data'', JObj [(''pageInfo'', JObj [(''totalResults'', JNum 0)])])]))
             constructor (JObj [(''videoId'', JStr ''v''), (''parentId'', JStr ''p'')]))
     = Inr (JArr [])"
proof -
  let ?env = "map_of [(''YOUTUBE_API_KEY'', ''k'')]"
  let ?c = "\<lparr>version = ''v3'', auth = ''k''\<rparr>"
  let ?args = "JObj [(''videoId'', JStr ''v''), (''parentId'', JStr ''p'')]"
  let ?response = "JObj [(''data'', JObj [(''pageInfo'', JObj [(''totalResults'', JNum 0)])])]"
  have h1: "usable ?env constructor ?c" by (simp add: usable_def constructor_def)
  have h2: "is_record ?args" by simp
  have h3: "is_record ?response" by simp
  have h4: "is_record (own_prop ?response ''data'')" by simp
  have h5: "nullish (own_prop (own_prop ?response ''data'') ''items'')" by (simp add: nullish_def)
  have a1: "answering ?response ?c (comment_threads_request ?args) = Inr ?response"
    by (simp add: answering_def)
  have a2: "answering ?response ?c (comments_request ?args) = Inr ?response"
    by (simp add: answering_def)
  from missing_items_give_empty_result [where api = "answering ?response", OF h1 h2 h3 h4 h5]
  show ?thesis using h1 h2 h5 a1 a2 by simp
qed

section \<open>Lazy construction of the upstream client\<close>

lemma service_unchanged_when_initialized:
  assumes "initialized this"
  shows "service (getVideoComments env api this args) = this"
    and "service (getCommentReplies env api this args) = this"
  using initialize_initialized [OF assms, of env]
  by (auto simp: getVideoComments_def getCommentReplies_def Let_def split: sum.splits option.splits)

lemma first_use_constructs:
  assumes "\<not> initialized this" and "env ''YOUTUBE_API_KEY'' = Some k" and "k \<noteq> []"
    and "\<not> nullish args"
  shows "service (getVideoComments env api this args) =
           \<lparr>youtube = Some \<lparr>version = ''v3'', auth = k\<rparr>, initialized = True\<rparr>"
    and "service (getCommentReplies env api this args) =
           \<lparr>youtube = Some \<lparr>version = ''v3'', auth = k\<rparr>, initialized = True\<rparr>"
proof -
  have u: "usable env this \<lparr>version = ''v3'', auth = k\<rparr>"
    using assms(1-3) by (simp add: usable_def)
  show "service (getVideoComments env api this args) =
           \<lparr>youtube = Some \<lparr>version = ''v3'', auth = k\<rparr>, initialized = True\<rparr>"
    by (simp add: getVideoComments_usable [OF u assms(4)])
  show "service (getCommentReplies env api this args) =
           \<lparr>youtube = Some \<lparr>version = ''v3'', auth = k\<rparr>, initialized = True\<rparr>"
    by (simp add: getCommentReplies_usable [OF u assms(4)])
qed

lemma missing_key_fails_call:
  assumes "\<not> initialized this"
    and "env ''YOUTUBE_API_KEY'' = None \<or> env ''YOUTUBE_API_KEY'' = Some []"
    and "\<not> nullish args"
  shows "getVideoComments env api this args =
           \<lparr>result = Inl (JsError ''Failed to get comments: YOUTUBE_API_KEY environment variable is not set.''),
            service = this, requests = []\<rparr>"
    and "getCommentReplies env api this args =
           \<lparr>result = Inl (JsError ''Failed to get replies: YOUTUBE_API_KEY environment variable is not set.''),
            service = this, requests = []\<rparr>"
  using initialize_no_key [where env = env, OF assms(1,2)] destructure_not_nullish [OF assms(3)]
  by (simp_all add: getVideoComments_def getCommentReplies_def Let_def rethrow_def)

text \<open>
  C2, as the code has it: the constructor builds no client; a use of an uninitialized
  service with a non-empty \<^verbatim>\<open>YOUTUBE_API_KEY\<close> constructs the client from that key; an
  initialized service is left as it is by every call, so the client is constructed at most
  once; and a use of an uninitialized service without the key fails that call with the
  operation's own error, issues no request and leaves the service uninitialized.
\<close>

theorem lazy_client_construction:
  "youtube constructor = None \<and> initialized constructor = False \<and>
   (\<not> initialized this \<and> env ''YOUTUBE_API_KEY'' = Some k \<and> k \<noteq> [] \<and> \<not> nullish args \<longrightarrow>
      service (getVideoComments env api this args) =
        \<lparr>youtube = Some \<lparr>version = ''v3'', auth = k\<rparr>, initialized = True\<rparr> \<and>
      service (getCommentReplies env api this args) =
        \<lparr>youtube = Some \<lparr>version = ''v3'', auth = k\<rparr>, initialized = True\<rparr>) \<and>
   (initialized this \<longrightarrow>
      service (getVideoComments env api this args) = this \<and>
      service (getCommentReplies env api this args) = this) \<and>
   (\<not> initialized this \<and>
    (env ''YOUTUBE_API_KEY'' = None \<or> env ''YOUTUBE_API_KEY'' = Some []) \<and> \<not> nullish args \<longrightarrow>
      getVideoComments env api this args =
        \<lparr>result = Inl (JsError ''Failed to get comments: YOUTUBE_API_KEY environment variable is not set.''),
         service = this, requests = []\<rparr> \<and>
      getCommentReplies env api this args =
        \<lparr>result = Inl (JsError ''Failed to get replies: YOUTUBE_API_KEY environment variable is not set.''),
         service = this, requests = []\<rparr>)"
proof (intro conjI impI)
  show "youtube constructor = None" by (simp add: constructor_def)
  show "initialized constructor = False" by (simp add: constructor_def)
next
  assume "\<not> initialized this \<and> env ''YOUTUBE_API_KEY'' = Some k \<and> k \<noteq> [] \<and> \<not> nullish args"
  then have a: "\<not> initialized this" "env ''YOUTUBE_API_KEY'' = Some k" "k \<noteq> []" "\<not> nullish args"
    by simp_all
  show "service (getVideoComments env api this args) =
          \<lparr>youtube = Some \<lparr>version = ''v3'', auth = k\<rparr>, initialized = True\<rparr>"
    by (rule first_use_constructs(1) [where env = env, OF a])
  show "service (getCommentReplies env api this args) =
          \<lparr>youtube = Some \<lparr>version = ''v3'', auth = k\<rparr>, initialized = True\<rparr>"
    by (rule first_use_constructs(2) [where env = env, OF a])
next
  assume i: "initialized this"
  show "service (getVideoComments env api this args) = this"
    by (rule service_unchanged_when_initialized(1) [OF i])
  show "service (getCommentReplies env api this args) = this"
    by (rule service_unchanged_when_initialized(2) [OF i])
next
  assume "\<not> initialized this \<and>
    (env ''YOUTUBE_API_KEY'' = None \<or> env ''YOUTUBE_API_KEY'' = Some []) \<and> \<not> nullish args"
  then have a: "\<not> initialized this"
    "env ''YOUTUBE_API_KEY'' = None \<or> env ''YOUTUBE_API_KEY'' = Some []" "\<not> nullish args"
    by simp_all
  show "getVideoComments env api this args =
        \<lparr>result = Inl (JsError ''Failed to get comments: YOUTUBE_API_KEY environment variable is not set.''),
         service = this, requests = []\<rparr>"
    by (rule missing_key_fails_call(1) [where env = env, OF a])
  show "getCommentReplies env api this args =
        \<lparr>result = Inl (JsError ''Failed to get replies: YOUTUBE_API_KEY environment variable is not set.''),
         service = this, requests = []\<rparr>"
    by (rule missing_key_fails_call(2) [where env = env, OF a])
qed

theorem lazy_client_construction_witness:
  "\<not> initialized constructor \<and>
   map_of [(''YOUTUBE_API_KEY'', ''k'')] ''YOUTUBE_API_KEY'' = Some ''k'' \<and> ''k'' \<noteq> [] \<and>
   \<not> nullish (JObj [(''videoId'', JStr ''v'')]) \<and>
   service (getVideoComments (map_of [(''YOUTUBE_API_KEY'', ''k'')]) (answering JNull) constructor
              (JObj [(''videoId'', JStr ''v'')]))
     = \<lparr>youtube = Some \<lparr>version = ''v3'', auth = ''k''\<rparr>, initialized = True\<rparr> \<and>
   initialized \<lparr>youtube = Some \<lparr>version = ''v3'', auth = ''k''\<rparr>, initialized = True\<rparr> \<and>
   service (getVideoComments (map_of [(''YOUTUBE_API_KEY'', ''other'')]) (answering JNull)
              \<lparr>youtube = Some \<lparr>version = ''v3'', auth = ''k''\<rparr>, initialized = True\<rparr>
              (JObj [(''videoId'', JStr ''v'')]))
     = \<lparr>youtube = Some \<lparr>version = ''v3'', auth = ''k''\<rparr>, initialized = True\<rparr> \<and>
   map_of [] ''YOUTUBE_API_KEY'' = (None :: string option) \<and>
   getCommentReplies (map_of []) (answering JNull) constructor (JObj [(''videoId'', JStr ''v'')])
     = \<lparr>result = Inl (JsError ''Failed to get replies: YOUTUBE_API_KEY environment variable is not set.''),
        service = constructor, requests = []\<rparr>"
proof -
  let ?args = "JObj [(''videoId'', JStr ''v'')]"
  let ?svc = "\<lparr>youtube = Some \<lparr>version = ''v3'', auth = ''k''\<rparr>, initialized = True\<rparr>"
  have h1: "\<not> initialized constructor" by (simp add: constructor_def)
  have h2: "map_of [(''YOUTUBE_API_KEY'', ''k'')] ''YOUTUBE_API_KEY'' = Some ''k''" by simp
  have h3: "''k'' \<noteq> []" by simp
  have h4: "\<not> nullish ?args" by (simp add: nullish_def)
  have h5: "initialized ?svc" by simp
  have h6: "map_of [] ''YOUTUBE_API_KEY'' = (None :: string option)" by simp
  note first = lazy_client_construction
    [where this = constructor and env = "map_of [(''YOUTUBE_API_KEY'', ''k'')]" and k = "''k''"
       and args = ?args and api = "answering JNull"]
  note again = lazy_client_construction
    [where this = ?svc and env = "map_of [(''YOUTUBE_API_KEY'', ''other'')]"
       and args = ?args and api = "answering JNull"]
  note nokey = lazy_client_construction
    [where this = constructor and env = "map_of []" and args = ?args and api = "answering JNull"]
  show ?thesis using h1 h2 h3 h4 h5 h6 first again nokey by simp
qed

text \<open>
  Against C2 as stated: on a fresh service and an environment without the key,
  \<^verbatim>\<open>getVideoComments\<close> catches the failure of the construction and rejects with its own
  per-call error; the service is as before, and the next call, made with the key set,
  succeeds.
\<close>

theorem missing_key_is_caught_per_call:
  "getVideoComments (map_of []) (answering (JObj [(''data'', JObj [(''items'', JArr [])])]))
     constructor (JObj [(''videoId'', JStr ''v'')])
     = \<lparr>result = Inl (JsError ''Failed to get comments: YOUTUBE_API_KEY environment variable is not set.''),
        service = constructor, requests = []\<rparr> \<and>
   result (getVideoComments (map_of [(''YOUTUBE_API_KEY'', ''k'')])
             (answering (JObj [(''data'', JObj [(''items'', JArr [])])]))
             (service (getVideoComments (map_of [])
                         (answering (JObj [(''data'', JObj [(''items'', JArr [])])]))
                         constructor (JObj [(''videoId'', JStr ''v'')])))
             (JObj [(''videoId'', JStr ''v'')]))
     = Inr (JObj [(''comments'', JArr []), (''pageInfo'', JUndefined)])"
  by (simp add: getVideoComments_def initialize_def constructor_def rethrow_def with_default_def
      answering_def and_then_def comments_of_response_def extractEssentialComments_def js_or_def)

section \<open>Already-projected records\<close>

lemma is_projected_fields:
  assumes "is_projected r"
  shows "is_record r" and "own_prop r ''snippet'' = JUndefined" and "own_prop r ''id'' = JUndefined"
proof -
  from assms obtain fs where r: "r = JObj fs" and keys: "set (map fst fs) = {''parentId'', ''text''}"
    by (cases r) (auto simp: is_projected_def)
  show "is_record r" using r by simp
  have "''snippet'' \<notin> fst ` set fs" "''id'' \<notin> fst ` set fs" using keys by auto
  then have "map_of fs ''snippet'' = None" "map_of fs ''id'' = None"
    by (simp_all add: map_of_eq_None_iff)
  then show "own_prop r ''snippet'' = JUndefined" "own_prop r ''id'' = JUndefined"
    using r by simp_all
qed

lemma service_projection_of_projected:
  assumes "is_projected r"
  shows "extractEssentialComment r = Inr (JObj [(''parentId'', JUndefined), (''text'', JStr '''')])"
  using is_projected_fields [OF assms]
  by (simp add: extractEssentialComment_record comment_text_def js_or_def)

lemma test_projection_of_projected:
  assumes "nonempty_projected r"
  shows "test_extractEssentialComment r = Inr r"
proof -
  from assms have p: "is_projected r" and t: "truthy (own_prop r ''parentId'')" "truthy (own_prop r ''text'')"
    by (simp_all add: nonempty_projected_def)
  show ?thesis using is_projected_fields [OF p] t
    by (simp add: test_extractEssentialComment_def and_then_def is_record_get_prop js_and_def js_not_def)
qed

text \<open>
  C1, as the code has it: the projection of the test script returns unchanged every
  already-projected record whose \<^verbatim>\<open>parentId\<close> and \<^verbatim>\<open>text\<close> are both non-empty, and
  returns a list of such records as it is. The projection of the service does no such
  detection: it maps each of them to \<^verbatim>\<open>{parentId: undefined, text: ''}\<close>.
\<close>

theorem projected_records_pass_test_projection:
  assumes "list_all nonempty_projected rs"
  shows "test_extractEssentialComments (JArr rs) = Inr rs \<and>
         list_all (\<lambda>r. test_extractEssentialComment r = Inr r \<and>
                        test_extractEssentialComments (JArr [r]) = Inr [r]) rs \<and>
         extractEssentialComments (JArr rs) =
           Inr (map (\<lambda>r. JObj [(''parentId'', JUndefined), (''text'', JStr '''')]) rs)"
proof (intro conjI)
  have "js_map test_extractEssentialComment rs = Inr (map (\<lambda>r. r) rs)"
    by (rule js_map_Inr) (use assms in \<open>simp add: test_projection_of_projected list_all_iff\<close>)
  then show "test_extractEssentialComments (JArr rs) = Inr rs"
    by (simp add: test_extractEssentialComments_def)
  show "list_all (\<lambda>r. test_extractEssentialComment r = Inr r \<and>
                        test_extractEssentialComments (JArr [r]) = Inr [r]) rs"
    using assms
    by (simp add: test_projection_of_projected test_extractEssentialComments_def list_all_iff)
  show "extractEssentialComments (JArr rs) =
           Inr (map (\<lambda>r. JObj [(''parentId'', JUndefined), (''text'', JStr '''')]) rs)"
    unfolding extractEssentialComments_def call_map.simps
    by (rule js_map_Inr)
      (use assms in \<open>simp add: service_projection_of_projected list_all_iff nonempty_projected_def\<close>)
qed

theorem projected_records_pass_test_projection_witness:
  "list_all nonempty_projected
     [JObj [(''parentId'', JStr ''abc''), (''text'', JStr ''hello'')],
      JObj [(''text'', JStr ''again''), (''parentId'', JStr ''def'')]] \<and>
   test_extractEssentialComments
     (JArr [JObj [(''parentId'', JStr ''abc''), (''text'', JStr ''hello'')],
            JObj [(''text'', JStr ''again''), (''parentId'', JStr ''def'')]])
     = Inr [JObj [(''parentId'', JStr ''abc''), (''text'', JStr ''hello'')],
            JObj [(''text'', JStr ''again''), (''parentId'', JStr ''def'')]] \<and>
   extractEssentialComments
     (JArr [JObj [(''parentId'', JStr ''abc''), (''text'', JStr ''hello'')],
            JObj [(''text'', JStr ''again''), (''parentId'', JStr ''def'')]])
     = Inr [JObj [(''parentId'', JUndefined), (''text'', JStr '''')],
            JObj [(''parentId'', JUndefined), (''text'', JStr '''')]]"
proof -
  have h: "list_all nonempty_projected
     [JObj [(''parentId'', JStr ''abc''), (''text'', JStr ''hello'')],
      JObj [(''text'', JStr ''again''), (''parentId'', JStr ''def'')]]"
    by (simp add: nonempty_projected_def is_projected_def insert_commute)
  show ?thesis using h projected_records_pass_test_projection [OF h] by simp
qed

text \<open>
  Against C1 as stated: the service's projection changes the already-projected record
  \<^verbatim>\<open>{parentId: 'abc', text: 'hello'}\<close>, and the test script's projection changes the
  already-projected record \<^verbatim>\<open>{parentId: 'abc', text: ''}\<close>.
\<close>

theorem projection_not_idempotent:
  "is_projected (JObj [(''parentId'', JStr ''abc''), (''text'', JStr ''hello'')]) \<and>
   extractEssentialComments (JArr [JObj [(''parentId'', JStr ''abc''), (''text'', JStr ''hello'')]])
     = Inr [JObj [(''parentId'', JUndefined), (''text'', JStr '''')]] \<and>
   extractEssentialComments (JArr [JObj [(''parentId'', JStr ''abc''), (''text'', JStr ''hello'')]])
     \<noteq> Inr [JObj [(''parentId'', JStr ''abc''), (''text'', JStr ''hello'')]] \<and>
   is_projected (JObj [(''parentId'', JStr ''abc''), (''text'', JStr '''')]) \<and>
   test_extractEssentialComments (JArr [JObj [(''parentId'', JStr ''abc''), (''text'', JStr '''')]])
     = Inr [JObj [(''parentId'', JUndefined), (''text'', JStr '''')]] \<and>
   test_extractEssentialComments (JArr [JObj [(''parentId'', JStr ''abc''), (''text'', JStr '''')]])
     \<noteq> Inr [JObj [(''parentId'', JStr ''abc''), (''text'', JStr '''')]]"
  by (simp add: is_projected_def extractEssentialComments_def extractEssentialComment_def
      test_extractEssentialComments_def test_extractEssentialComment_def
      and_then_def js_or_def js_and_def js_not_def)

end
